theory Spec2Isabelle
  imports
    Complex_Main
    "HOL-Library.Char_ord"
    "HOL-Library.List_Lexorder"
    "HOL-Library.Option_ord"
    "HOL-Library.Multiset"
begin

section \<open>JavaScript values\<close>

text \<open>
  The handlers of \<^verbatim>\<open>src/backend/server.js\<close> receive JSON request bodies and rows of the
  \<^verbatim>\<open>inventory\<close> table. Their fields are JavaScript primitives. A finite number is kept
  as the exact rational it denotes (every binary64 value is one); \<open>-0\<close> and \<open>+0\<close> are the
  same \<open>Fin 0\<close>, which the code cannot tell apart: both are falsy and the code replaces a falsy
  number by \<open>0\<close> before it prints it. A field that is absent from an object reads as
  \<open>JUndefined\<close>. Strings are byte strings (UTF-8). Arrays and nested objects are left out:
  they are always truthy and never \<open>null\<close>, and no column of the table holds one.
\<close>

datatype jsnum = NaN | PosInf | NegInf | Fin rat

datatype jsval = JUndefined | JNull | JBool bool | JNum jsnum | JStr string

text \<open>\<^verbatim>\<open>ToBoolean\<close>: what \<^verbatim>\<open>!v\<close> and \<^verbatim>\<open>v || d\<close> test.\<close>

fun ToBoolean :: "jsval \<Rightarrow> bool" where
  "ToBoolean JUndefined = False"
| "ToBoolean JNull = False"
| "ToBoolean (JBool b) = b"
| "ToBoolean (JNum n) = (n \<noteq> NaN \<and> n \<noteq> Fin 0)"
| "ToBoolean (JStr s) = (s \<noteq> [])"

text \<open>\<^verbatim>\<open>a || b\<close>\<close>

definition js_or :: "jsval \<Rightarrow> jsval \<Rightarrow> jsval" where
  "js_or a b = (if ToBoolean a then a else b)"

text \<open>\<^verbatim>\<open>v == null\<close>: true of \<^verbatim>\<open>null\<close> and \<^verbatim>\<open>undefined\<close> only.\<close>

definition eq_null :: "jsval \<Rightarrow> bool" where
  "eq_null v = (v = JNull \<or> v = JUndefined)"

section \<open>Records of the inventory\<close>

text \<open>
  \<open>fields\<close> is the shape \<^verbatim>\<open>{ name, quantity, price, category, supplier }\<close> that the POST and
  PUT handlers destructure from \<^verbatim>\<open>req.body\<close>; a row of the table has these columns and
  the \<^verbatim>\<open>id\<close> that the store assigned.
\<close>

record fields =
  name :: jsval
  quantity :: jsval
  price :: jsval
  category :: jsval
  supplier :: jsval

record item = fields +
  item_id :: int

section \<open>The store\<close>

text \<open>The five statements that the handlers send, with their bound parameters.\<close>

datatype statement =
    SELECT_ORDER_BY_name
  | SELECT_WHERE_id int
  | INSERT jsval jsval jsval jsval jsval
  | UPDATE_WHERE_id jsval jsval jsval jsval jsval int
  | DELETE_WHERE_id int

text \<open>What \<^verbatim>\<open>conn.query\<close> resolves to: the rows of a SELECT, or the header of a write.\<close>

datatype query_result = Rows (rows: "item list") | ResultSetHeader (affectedRows: nat)

text \<open>
  Modelled from the spec: the collation of the \<^verbatim>\<open>name\<close> column, which belongs to the
  database and not to the repository. Names compare as byte strings; a name that is not a
  string sorts first, as SQL's NULL does in ascending order.
\<close>

fun name_key :: "jsval \<Rightarrow> string option" where
  "name_key (JStr s) = Some s"
| "name_key _ = None"

text \<open>
  Modelled from the spec: the relational store (MySQL behind \<^verbatim>\<open>mysql2\<close>), which the
  repository only calls. The spec's contract (section 4.1): listing is ordered by name
  ascending; lookup, update and delete are keyed by \<open>id\<close>; an update overwrites all five
  fields; the store assigns the id of a new row. A write reports the number of rows whose id
  matched. The arguments are the statement, the table and the next id to assign.
\<close>

fun run_statement :: "statement \<Rightarrow> item list \<Rightarrow> int \<Rightarrow> query_result \<times> item list \<times> int" where
  "run_statement SELECT_ORDER_BY_name t n =
     (Rows (sort_key (\<lambda>r. name_key (name r)) t), t, n)"
| "run_statement (SELECT_WHERE_id i) t n =
     (Rows (filter (\<lambda>r. item_id r = i) t), t, n)"
| "run_statement (INSERT a b c d e) t n =
     (ResultSetHeader 1,
      t @ [\<lparr>name = a, quantity = b, price = c, category = d, supplier = e, item_id = n\<rparr>],
      n + 1)"
| "run_statement (UPDATE_WHERE_id a b c d e i) t n =
     (ResultSetHeader (length (filter (\<lambda>r. item_id r = i) t)),
      map (\<lambda>r. if item_id r = i
                then r\<lparr>name := a, quantity := b, price := c, category := d, supplier := e\<rparr>
                else r) t,
      n)"
| "run_statement (DELETE_WHERE_id i) t n =
     (ResultSetHeader (length (filter (\<lambda>r. item_id r = i) t)),
      filter (\<lambda>r. item_id r \<noteq> i) t,
      n)"

section \<open>The world of a request\<close>

text \<open>
  A handler runs against the table, the faults that the database will raise during the
  request (the raw error text of \<^verbatim>\<open>createConnection\<close>, of \<^verbatim>\<open>query\<close> and of
  \<^verbatim>\<open>end\<close>, if any), the sequence of connection events so far, and the lines written with
  \<^verbatim>\<open>console.error\<close>.
\<close>

datatype event = Connected | Queried statement | Ended

record world =
  table :: "item list"
  next_id :: int
  connect_error :: "string option"
  query_error :: "string option"
  end_error :: "string option"
  events :: "event list"
  console :: "(string \<times> string) list"

text \<open>An awaited call either throws the raw error or yields a value, and changes the world.\<close>

type_synonym 'a io = "world \<Rightarrow> (string + 'a) \<times> world"

definition return :: "'a \<Rightarrow> 'a io" where
  "return x w = (Inr x, w)"

definition bind :: "'a io \<Rightarrow> ('a \<Rightarrow> 'b io) \<Rightarrow> 'b io" where
  "bind m f w = (case m w of (Inl e, w') \<Rightarrow> (Inl e, w') | (Inr x, w') \<Rightarrow> f x w')"

text \<open>\<^verbatim>\<open>try { m } catch (err) { h(err) }\<close>\<close>

definition try_catch :: "'a io \<Rightarrow> (string \<Rightarrow> world \<Rightarrow> 'a \<times> world) \<Rightarrow> world \<Rightarrow> 'a \<times> world" where
  "try_catch m h w = (case m w of (Inl e, w') \<Rightarrow> h e w' | (Inr r, w') \<Rightarrow> (r, w'))"

text \<open>\<^verbatim>\<open>getConnection()\<close>, that is \<^verbatim>\<open>mysql.createConnection(dbConfig)\<close>\<close>

definition getConnection :: "unit io" where
  "getConnection w =
     (case connect_error w of
        Some e \<Rightarrow> (Inl e, w)
      | None \<Rightarrow> (Inr (), w\<lparr>events := events w @ [Connected]\<rparr>))"

text \<open>\<^verbatim>\<open>conn.query(sql, params)\<close>: a statement that fails leaves the table as it was.\<close>

definition query :: "statement \<Rightarrow> query_result io" where
  "query st w =
     (case query_error w of
        Some e \<Rightarrow> (Inl e, w\<lparr>events := events w @ [Queried st]\<rparr>)
      | None \<Rightarrow>
          (case run_statement st (table w) (next_id w) of
             (r, t', n') \<Rightarrow>
               (Inr r, w\<lparr>table := t', next_id := n', events := events w @ [Queried st]\<rparr>)))"

text \<open>\<^verbatim>\<open>conn.end()\<close>\<close>

definition conn_end :: "unit io" where
  "conn_end w =
     (case end_error w of
        Some e \<Rightarrow> (Inl e, w)
      | None \<Rightarrow> (Inr (), w\<lparr>events := events w @ [Ended]\<rparr>))"

text \<open>\<^verbatim>\<open>console.error(chalk.red(label), err)\<close>\<close>

definition console_error :: "string \<Rightarrow> string \<Rightarrow> world \<Rightarrow> world" where
  "console_error label err w = w\<lparr>console := console w @ [(label, err)]\<rparr>"

text \<open>Connections that were opened and not ended.\<close>

definition open_connections :: "world \<Rightarrow> nat" where
  "open_connections w =
     length (filter (\<lambda>e. e = Connected) (events w)) - length (filter (\<lambda>e. e = Ended) (events w))"

section \<open>Responses\<close>

text \<open>
  The PDF document is the sequence of calls made on the \<^verbatim>\<open>PDFDocument\<close>; \<^verbatim>\<open>pdfkit\<close> turns
  them into bytes.
\<close>

datatype pdf_op =
    NewDocument nat string
  | FontSize nat
  | TextAligned string string
  | MoveDown
  | TextAt jsval nat nat
  | EndDocument

datatype payload =
    JsonError string
  | JsonMessage string
  | JsonRows "item list"
  | JsonItem item
  | Plain string
  | CsvText string
  | PdfStream "pdf_op list"

datatype header_call = SetHeader string string | Attachment string

record response =
  status :: nat
  headers :: "header_call list"
  payload :: payload

text \<open>\<^verbatim>\<open>res.status(s).json(p)\<close> and \<^verbatim>\<open>res.status(s).send(p)\<close>; the status is 200 unless set.\<close>

definition respond :: "nat \<Rightarrow> payload \<Rightarrow> response" where
  "respond s p = \<lparr>status = s, headers = [], payload = p\<rparr>"

section \<open>The JSON routes\<close>

text \<open>\<^verbatim>\<open>app.get('/inventory', ...)\<close>\<close>

definition get_inventory :: "world \<Rightarrow> response \<times> world" where
  "get_inventory =
     try_catch
       (bind getConnection (\<lambda>conn.
        bind (query SELECT_ORDER_BY_name) (\<lambda>res.
        bind conn_end (\<lambda>_.
        return (respond 200 (JsonRows (rows res)))))))
       (\<lambda>err w. (respond 500 (JsonError ''Database error''),
                 console_error ''GET /inventory error:'' err w))"

text \<open>\<^verbatim>\<open>app.get('/inventory/:id', ...)\<close>\<close>

definition get_inventory_id :: "int \<Rightarrow> world \<Rightarrow> response \<times> world" where
  "get_inventory_id i =
     try_catch
       (bind getConnection (\<lambda>conn.
        bind (query (SELECT_WHERE_id i)) (\<lambda>res.
        bind conn_end (\<lambda>_.
        return (if length (rows res) = 0 then respond 404 (JsonError ''Item not found'')
                else respond 200 (JsonItem (rows res ! 0)))))))
       (\<lambda>err w. (respond 500 (JsonError ''Database error''),
                 console_error ''GET /inventory/:id error:'' err w))"

text \<open>\<^verbatim>\<open>app.post('/inventory', ...)\<close>\<close>

definition post_inventory :: "fields \<Rightarrow> world \<Rightarrow> response \<times> world" where
  "post_inventory b =
     try_catch
       (if \<not> ToBoolean (name b) \<or> eq_null (quantity b)
        then return (respond 400 (JsonError ''Name and quantity are required''))
        else
          bind getConnection (\<lambda>conn.
          bind (query (INSERT (name b) (quantity b) (js_or (price b) (JNum (Fin 0)))
                         (js_or (category b) (JStr [])) (js_or (supplier b) (JStr [])))) (\<lambda>_.
          bind conn_end (\<lambda>_.
          return (respond 200 (JsonMessage ''Item added''))))))
       (\<lambda>err w. (respond 500 (JsonError ''Database error''),
                 console_error ''POST /inventory error:'' err w))"

text \<open>\<^verbatim>\<open>app.put('/inventory/:id', ...)\<close>\<close>

definition put_inventory_id :: "int \<Rightarrow> fields \<Rightarrow> world \<Rightarrow> response \<times> world" where
  "put_inventory_id i b =
     try_catch
       (if \<not> ToBoolean (name b) \<or> eq_null (quantity b)
        then return (respond 400 (JsonError ''Name and quantity are required''))
        else
          bind getConnection (\<lambda>conn.
          bind (query (UPDATE_WHERE_id (name b) (quantity b) (js_or (price b) (JNum (Fin 0)))
                         (js_or (category b) (JStr [])) (js_or (supplier b) (JStr [])) i)) (\<lambda>result.
          bind conn_end (\<lambda>_.
          return (if affectedRows result = 0 then respond 404 (JsonError ''Item not found'')
                  else respond 200 (JsonMessage ''Item updated''))))))
       (\<lambda>err w. (respond 500 (JsonError ''Database error''),
                 console_error ''PUT /inventory/:id error:'' err w))"

text \<open>\<^verbatim>\<open>app.delete('/inventory/:id', ...)\<close>\<close>

definition delete_inventory_id :: "int \<Rightarrow> world \<Rightarrow> response \<times> world" where
  "delete_inventory_id i =
     try_catch
       (bind getConnection (\<lambda>conn.
        bind (query (DELETE_WHERE_id i)) (\<lambda>result.
        bind conn_end (\<lambda>_.
        return (if affectedRows result = 0 then respond 404 (JsonError ''Item not found'')
                else respond 200 (JsonMessage ''Item deleted''))))))
       (\<lambda>err w. (respond 500 (JsonError ''Database error''),
                 console_error ''DELETE /inventory/:id error:'' err w))"

section \<open>CSV export\<close>

definition comma :: char where "comma = CHR 0x2C"
definition dquote :: char where "dquote = CHR 0x22"
definition newline :: char where "newline = CHR 0x0A"

text \<open>\<^verbatim>\<open>Array.prototype.join\<close>\<close>

fun join :: "string \<Rightarrow> string list \<Rightarrow> string" where
  "join sep [] = []"
| "join sep [x] = x"
| "join sep (x # y # ys) = x @ sep @ join sep (y # ys)"

text \<open>
  Modelled from the spec: the CSV writer, \<^verbatim>\<open>Parser\<close> of the package \<^verbatim>\<open>json2csv\<close>, which the
  repository imports and whose code is not part of it. The spec (section 4.2 and the scenario
  of section 8): a header row with the column names in the order given, then one row per
  item; a field that contains the delimiter, the quote character or a newline is quoted, and
  embedded quotes are doubled; every row, the header too, ends with \<^verbatim>\<open>\n\<close>. The spec
  compares fields as strings and does not say how a number or a missing value is written, so
  the string form of a field value is the parameter \<open>stringify\<close>.
\<close>

definition needs_quote :: "string \<Rightarrow> bool" where
  "needs_quote s = (comma \<in> set s \<or> dquote \<in> set s \<or> newline \<in> set s)"

fun csv_escape :: "string \<Rightarrow> string" where
  "csv_escape [] = []"
| "csv_escape (c # cs) = (if c = dquote then [dquote, dquote] else [c]) @ csv_escape cs"

definition csv_field :: "string \<Rightarrow> string" where
  "csv_field s = (if needs_quote s then dquote # csv_escape s @ [dquote] else s)"

definition csv_line :: "string list \<Rightarrow> string" where
  "csv_line fs = join [comma] (map csv_field fs) @ [newline]"

text \<open>\<^verbatim>\<open>row[f]\<close> for a column name \<open>f\<close>\<close>

definition get_field :: "string \<Rightarrow> item \<Rightarrow> jsval" where
  "get_field f r =
     (if f = ''id'' then JNum (Fin (of_int (item_id r)))
      else if f = ''name'' then name r
      else if f = ''quantity'' then quantity r
      else if f = ''price'' then price r
      else if f = ''category'' then category r
      else if f = ''supplier'' then supplier r
      else JUndefined)"

definition record_strings :: "(jsval \<Rightarrow> string) \<Rightarrow> string list \<Rightarrow> item \<Rightarrow> string list" where
  "record_strings stringify fs r = map (\<lambda>f. stringify (get_field f r)) fs"

text \<open>
  Modelled from the spec: \<^verbatim>\<open>new Parser({ fields }).parse(rows)\<close> of \<^verbatim>\<open>json2csv\<close>, the header
  line followed by the line of every row.
\<close>

definition Parser_parse :: "(jsval \<Rightarrow> string) \<Rightarrow> string list \<Rightarrow> item list \<Rightarrow> string" where
  "Parser_parse stringify fs rs =
     csv_line fs @ concat (map (\<lambda>r. csv_line (record_strings stringify fs r)) rs)"

text \<open>\<^verbatim>\<open>app.get('/export/csv', ...)\<close>\<close>

definition export_csv :: "(jsval \<Rightarrow> string) \<Rightarrow> world \<Rightarrow> response \<times> world" where
  "export_csv stringify =
     try_catch
       (bind getConnection (\<lambda>conn.
        bind (query SELECT_ORDER_BY_name) (\<lambda>res.
        bind conn_end (\<lambda>_.
        let fields = [''id'', ''name'', ''quantity'', ''price'', ''category'', ''supplier''];
            csv = Parser_parse stringify fields (rows res)
        in return \<lparr>status = 200,
                    headers = [SetHeader ''Content-Type'' ''text/csv'', Attachment ''inventory.csv''],
                    payload = CsvText csv\<rparr>))))
       (\<lambda>err w. (respond 500 (Plain ''Failed to export CSV''),
                 console_error ''GET /export/csv error:'' err w))"

subsection \<open>A reader of CSV\<close>

text \<open>
  The reader against which the export is checked: fields separated by commas, records ended
  by \<^verbatim>\<open>\n\<close>, a field that starts with a quote runs to its closing quote, and a doubled quote
  inside it stands for one quote. A quote inside an unquoted field, text after a closing
  quote and an unclosed quote are refused. The current field and the current record are
  accumulated in reverse.
\<close>

datatype csv_state = FieldStart | Unquoted | Quoted | QuoteSeen

fun csv_read :: "csv_state \<Rightarrow> string \<Rightarrow> string list \<Rightarrow> string list list \<Rightarrow> string
    \<Rightarrow> string list list option" where
  "csv_read FieldStart fld rcd recs [] =
     (if rcd = [] then Some (rev recs) else Some (rev (rev ([] # rcd) # recs)))"
| "csv_read Unquoted fld rcd recs [] = Some (rev (rev (rev fld # rcd) # recs))"
| "csv_read QuoteSeen fld rcd recs [] = Some (rev (rev (rev fld # rcd) # recs))"
| "csv_read Quoted fld rcd recs [] = None"
| "csv_read FieldStart fld rcd recs (c # cs) =
     (if c = dquote then csv_read Quoted [] rcd recs cs
      else if c = comma then csv_read FieldStart [] ([] # rcd) recs cs
      else if c = newline then csv_read FieldStart [] [] (rev ([] # rcd) # recs) cs
      else csv_read Unquoted [c] rcd recs cs)"
| "csv_read Unquoted fld rcd recs (c # cs) =
     (if c = dquote then None
      else if c = comma then csv_read FieldStart [] (rev fld # rcd) recs cs
      else if c = newline then csv_read FieldStart [] [] (rev (rev fld # rcd) # recs) cs
      else csv_read Unquoted (c # fld) rcd recs cs)"
| "csv_read Quoted fld rcd recs (c # cs) =
     (if c = dquote then csv_read QuoteSeen fld rcd recs cs
      else csv_read Quoted (c # fld) rcd recs cs)"
| "csv_read QuoteSeen fld rcd recs (c # cs) =
     (if c = dquote then csv_read Quoted (dquote # fld) rcd recs cs
      else if c = comma then csv_read FieldStart [] (rev fld # rcd) recs cs
      else if c = newline then csv_read FieldStart [] [] (rev (rev fld # rcd) # recs) cs
      else None)"

definition csv_parse :: "string \<Rightarrow> string list list option" where
  "csv_parse s = csv_read FieldStart [] [] [] s"

section \<open>PDF export\<close>

subsection \<open>Numbers as text\<close>

text \<open>
  Two built-ins of the language depend on the rounding of binary64 and are parameters of the
  model: \<open>parse_number\<close> is what \<^verbatim>\<open>parseFloat\<close> reads from a string, and
  \<open>shortest\<close> is \<^verbatim>\<open>Number::toString\<close> on the finite numbers that are not covered below.
\<close>

record builtins =
  parse_number :: "string \<Rightarrow> jsnum"
  shortest :: "rat \<Rightarrow> string"

definition is_digit :: "char \<Rightarrow> bool" where
  "is_digit c = (c \<in> set ''0123456789'')"

definition digit_char :: "nat \<Rightarrow> char" where
  "digit_char d = ''0123456789'' ! d"

function digits :: "nat \<Rightarrow> string" where
  "digits n = (if n < 10 then [digit_char n] else digits (n div 10) @ [digit_char (n mod 10)])"
  by pat_completeness auto
termination
  by (relation "measure id") auto

text \<open>\<open>strip_zeros n = (s, z)\<close> with \<open>n = s * 10 ^ z\<close> and \<open>s\<close> not a multiple of ten.\<close>

function strip_zeros :: "nat \<Rightarrow> nat \<times> nat" where
  "strip_zeros n =
     (if 0 < n \<and> n mod 10 = 0 then (case strip_zeros (n div 10) of (s, z) \<Rightarrow> (s, Suc z))
      else (n, 0))"
  by pat_completeness auto
termination
  by (relation "measure id") auto

declare digits.simps [simp del] strip_zeros.simps [simp del]

text \<open>
  \<^verbatim>\<open>Number::toString\<close> in radix ten. For a whole number with at most 15 significant digits
  the digits that the language prints are the digits of the number itself: with \<open>k\<close>
  significant digits and \<open>n\<close> digits in all, the \<open>k\<close> digits and \<open>n - k\<close> zeros when
  \<open>n \<le> 21\<close>, and the exponent form \<^verbatim>\<open>d.ddde+N\<close> beyond. Any other finite number is printed
  by \<open>shortest\<close>.
\<close>

definition Number_toString :: "builtins \<Rightarrow> jsnum \<Rightarrow> string" where
  "Number_toString B v =
     (case v of
        NaN \<Rightarrow> ''NaN''
      | PosInf \<Rightarrow> ''Infinity''
      | NegInf \<Rightarrow> ''-Infinity''
      | Fin x \<Rightarrow>
          if x = 0 then ''0''
          else if of_int \<lfloor>x\<rfloor> = x then
            (case strip_zeros (nat \<bar>\<lfloor>x\<rfloor>\<bar>) of
               (s, z) \<Rightarrow>
                 let ds = digits s; k = length ds; n = k + z in
                 if k \<le> 15 then
                   (if x < 0 then ''-'' else []) @
                   (if n \<le> 21 then ds @ replicate z (CHR ''0'')
                    else (if k = 1 then ds else hd ds # CHR ''.'' # tl ds) @ ''e+'' @ digits (n - 1))
                 else shortest B x)
          else shortest B x)"

text \<open>
  \<^verbatim>\<open>Number.prototype.toFixed(2)\<close>: a number that is not finite prints as itself; a magnitude
  of \<open>10^21\<close> or more prints as \<^verbatim>\<open>Number::toString\<close> does; otherwise the nearest multiple
  of one hundredth, the larger of two equally near ones, with at least one digit before the
  point and two after it.
\<close>

definition toFixed2 :: "builtins \<Rightarrow> jsnum \<Rightarrow> string" where
  "toFixed2 B v =
     (case v of
        Fin x \<Rightarrow>
          let s = (if x < 0 then ''-'' else []); a = \<bar>x\<bar> in
          if 10 ^ 21 \<le> a then s @ Number_toString B (Fin a)
          else
            let n = nat \<lfloor>a * 100 + 1 / 2\<rfloor>;
                m = digits n;
                m = (if length m \<le> 2 then replicate (3 - length m) (CHR ''0'') @ m else m);
                k = length m
            in s @ take (k - 2) m @ ''.'' @ drop (k - 2) m
      | _ \<Rightarrow> Number_toString B v)"

text \<open>
  \<^verbatim>\<open>parseFloat(v)\<close> reads the string form of \<open>v\<close>. The string form of a number reads back
  as that number, and \<^verbatim>\<open>undefined\<close>, \<^verbatim>\<open>null\<close>, \<^verbatim>\<open>true\<close> and \<^verbatim>\<open>false\<close> do not start
  with a number.
\<close>

definition parseFloat :: "builtins \<Rightarrow> jsval \<Rightarrow> jsnum" where
  "parseFloat B v = (case v of JStr s \<Rightarrow> parse_number B s | JNum n \<Rightarrow> n | _ \<Rightarrow> NaN)"

text \<open>\<^verbatim>\<open>v?.toString()\<close>\<close>

fun optional_toString :: "builtins \<Rightarrow> jsval \<Rightarrow> jsval" where
  "optional_toString B JUndefined = JUndefined"
| "optional_toString B JNull = JUndefined"
| "optional_toString B (JBool b) = JStr (if b then ''true'' else ''false'')"
| "optional_toString B (JNum n) = JStr (Number_toString B n)"
| "optional_toString B (JStr s) = JStr s"

subsection \<open>The table\<close>

text \<open>
  The currency prefix, byte for byte as the source file has it: the seven bytes
  \<^verbatim>\<open>C3 A2 E2 80 9A C2 B9\<close>.
\<close>

definition currency :: string where
  "currency = [CHR 0xC3, CHR 0xA2, CHR 0xE2, CHR 0x80, CHR 0x9A, CHR 0xC2, CHR 0xB9]"

text \<open>The four computed cells of a row, in the order of the callback of \<^verbatim>\<open>rows.forEach\<close>.\<close>

definition quantity_cell :: "builtins \<Rightarrow> item \<Rightarrow> jsval" where
  "quantity_cell B item = js_or (optional_toString B (quantity item)) (JStr ''0'')"

definition price_text :: "builtins \<Rightarrow> item \<Rightarrow> string" where
  "price_text B item =
     (let p = parseFloat B (price item);
          p = (if ToBoolean (JNum p) then p else Fin 0)
      in toFixed2 B p)"

definition price_cell :: "builtins \<Rightarrow> item \<Rightarrow> jsval" where
  "price_cell B item = JStr (currency @ price_text B item)"

definition category_cell :: "item \<Rightarrow> jsval" where
  "category_cell item = js_or (category item) (JStr ''-'')"

definition supplier_cell :: "item \<Rightarrow> jsval" where
  "supplier_cell item = js_or (supplier item) (JStr ''-'')"

definition row_ops :: "builtins \<Rightarrow> item \<Rightarrow> nat \<Rightarrow> pdf_op list" where
  "row_ops B item y =
     [TextAt (name item) 50 y,
      TextAt (quantity_cell B item) 200 y,
      TextAt (price_cell B item) 260 y,
      TextAt (category_cell item) 330 y,
      TextAt (supplier_cell item) 420 y]"

text \<open>\<^verbatim>\<open>rows.forEach(item => { ...; y += 20; })\<close>\<close>

fun forEach_row :: "builtins \<Rightarrow> item list \<Rightarrow> nat \<Rightarrow> pdf_op list" where
  "forEach_row B [] y = []"
| "forEach_row B (item # rest) y = row_ops B item y @ forEach_row B rest (y + 20)"

text \<open>\<^verbatim>\<open>app.get('/export/pdf', ...)\<close>\<close>

definition export_pdf :: "builtins \<Rightarrow> world \<Rightarrow> response \<times> world" where
  "export_pdf B =
     try_catch
       (bind getConnection (\<lambda>conn.
        bind (query SELECT_ORDER_BY_name) (\<lambda>res.
        bind conn_end (\<lambda>_.
        let filename = ''inventory.pdf'';
            tableTop = 100
        in return
          \<lparr>status = 200,
           headers =
             [SetHeader ''Content-disposition''
                (''attachment; filename='' @ [dquote] @ filename @ [dquote]),
              SetHeader ''Content-type'' ''application/pdf''],
           payload = PdfStream
             ([NewDocument 30 ''A4'',
               FontSize 18, TextAligned ''Inventory Report'' ''center'',
               MoveDown,
               FontSize 12, TextAt (JStr ''Name'') 50 tableTop,
               TextAt (JStr ''Qty'') 200 tableTop,
               TextAt (JStr ''Price'') 260 tableTop,
               TextAt (JStr ''Category'') 330 tableTop,
               TextAt (JStr ''Supplier'') 420 tableTop]
              @ forEach_row B (rows res) (tableTop + 20)
              @ [EndDocument])\<rparr>))))
       (\<lambda>err w. (respond 500 (Plain ''Failed to export PDF''),
                 console_error ''GET /export/pdf error:'' err w))"

text \<open>
  A text with exactly two decimal places: an optional minus sign, one digit or more, a point
  and two digits.
\<close>

fun strip_sign :: "string \<Rightarrow> string" where
  "strip_sign [] = []"
| "strip_sign (c # cs) = (if c = CHR ''-'' then cs else c # cs)"

definition two_decimal_places :: "string \<Rightarrow> bool" where
  "two_decimal_places s =
     (let t = strip_sign s; n = length t in
      3 < n \<and> list_all is_digit (take (n - 3) t) \<and> t ! (n - 3) = CHR ''.''
        \<and> list_all is_digit (drop (n - 2) t))"

text \<open>An instance of the built-ins for evaluating inputs on which they are not consulted.\<close>

definition no_builtins :: builtins where
  "no_builtins = \<lparr>parse_number = (\<lambda>s. NaN), shortest = (\<lambda>x. [])\<rparr>"

section \<open>Sample inputs\<close>

text \<open>A store that answers every call.\<close>

definition no_fault :: "world \<Rightarrow> bool" where
  "no_fault w = (connect_error w = None \<and> query_error w = None \<and> end_error w = None)"

definition empty_store :: world where
  "empty_store =
     \<lparr>table = [], next_id = 1, connect_error = None, query_error = None, end_error = None,
      events = [], console = []\<rparr>"

text \<open>Two rows, inserted out of name order; the first has fields that need quoting.\<close>

definition small_store :: world where
  "small_store =
     \<lparr>table =
        [\<lparr>name = JStr ''nut, M4'', quantity = JNum (Fin 7), price = JStr ''0.25'',
          category = JStr (''6'' @ [dquote] @ '' bag''), supplier = JNull, item_id = 1\<rparr>,
         \<lparr>name = JStr ''bolt'', quantity = JNull, price = JNull,
          category = JNull, supplier = JStr (''Acme'' @ [newline] @ ''Ltd''), item_id = 2\<rparr>],
      next_id = 3, connect_error = None, query_error = None, end_error = None,
      events = [], console = []\<rparr>"

text \<open>The bodies \<^verbatim>\<open>{name:"Widget", quantity:5}\<close>, \<^verbatim>\<open>{quantity:5}\<close>,
  \<^verbatim>\<open>{name:"Widget", quantity:0, price:"", category:null, supplier:false}\<close> and
  \<^verbatim>\<open>{name:"", quantity:5}\<close>.\<close>

definition widget :: fields where
  "widget = \<lparr>name = JStr ''Widget'', quantity = JNum (Fin 5), price = JUndefined,
             category = JUndefined, supplier = JUndefined\<rparr>"

definition nameless :: fields where
  "nameless = \<lparr>name = JUndefined, quantity = JNum (Fin 5), price = JUndefined,
               category = JUndefined, supplier = JUndefined\<rparr>"

definition zero_widget :: fields where
  "zero_widget = \<lparr>name = JStr ''Widget'', quantity = JNum (Fin 0), price = JStr [],
                  category = JNull, supplier = JBool False\<rparr>"

definition empty_name :: fields where
  "empty_name = \<lparr>name = JStr [], quantity = JNum (Fin 5), price = JUndefined,
                 category = JUndefined, supplier = JUndefined\<rparr>"

text \<open>A string form of field values for the CSV samples: strings as they are, whole numbers
  in decimal, nothing for a missing value.\<close>

definition plain_string :: "jsval \<Rightarrow> string" where
  "plain_string v = (case v of JStr s \<Rightarrow> s | JNum n \<Rightarrow> Number_toString no_builtins n | _ \<Rightarrow> [])"

text \<open>The store of two rows when the database rejects the statement, and when it refuses
  the connection.\<close>

definition broken_store :: world where
  "broken_store = small_store\<lparr>query_error := Some ''ER_LOCK_DEADLOCK: Deadlock found''\<rparr>"

definition unreachable_store :: world where
  "unreachable_store = small_store\<lparr>connect_error := Some ''connect ECONNREFUSED 10.0.0.5:3306''\<rparr>"

text \<open>Two rows for the PDF table: one with a price of twelve and a half and the other fields
  missing, one with a price of \<open>10^21\<close>.\<close>

definition plain_item :: item where
  "plain_item = \<lparr>name = JStr ''Widget'', quantity = JNull, price = JNum (Fin (25 / 2)),
                  category = JNull, supplier = JUndefined, item_id = 3\<rparr>"

definition costly_item :: item where
  "costly_item = \<lparr>name = JStr ''Reactor'', quantity = JNum (Fin 1), price = JNum (Fin (10 ^ 21)),
                   category = JStr ''plant'', supplier = JStr ''Acme'', item_id = 4\<rparr>"

section \<open>How a handler runs against the store\<close>

text \<open>
  Five handlers are the same three awaited calls and a response computed from the result;
  POST and PUT are that after their guard. The lemma lists the four ways the calls can go.
\<close>

lemma connect_query_end:
  "try_catch (bind getConnection (\<lambda>_. bind (query st) (\<lambda>res. bind conn_end (\<lambda>_. return (k res))))) h w =
  (case connect_error w of
     Some e \<Rightarrow> h e w
   | None \<Rightarrow>
      (case query_error w of
         Some e \<Rightarrow> h e (w\<lparr>events := events w @ [Connected, Queried st]\<rparr>)
       | None \<Rightarrow>
          (case run_statement st (table w) (next_id w) of
             (r, t', n') \<Rightarrow>
               (case end_error w of
                  Some e \<Rightarrow>
                    h e (w\<lparr>table := t', next_id := n',
                           events := events w @ [Connected, Queried st]\<rparr>)
                | None \<Rightarrow>
                    (k r, w\<lparr>table := t', next_id := n',
                            events := events w @ [Connected, Queried st, Ended]\<rparr>)))))"
  by (simp add: try_catch_def bind_def getConnection_def query_def conn_end_def return_def
      split: option.splits prod.splits)

lemma post_invalid:
  "\<not> ToBoolean (name b) \<or> eq_null (quantity b) \<Longrightarrow>
   post_inventory b w = (respond 400 (JsonError ''Name and quantity are required''), w)"
  by (auto simp add: post_inventory_def try_catch_def return_def)

lemma put_invalid:
  "\<not> ToBoolean (name b) \<or> eq_null (quantity b) \<Longrightarrow>
   put_inventory_id i b w = (respond 400 (JsonError ''Name and quantity are required''), w)"
  by (auto simp add: put_inventory_id_def try_catch_def return_def)

lemma post_valid:
  "ToBoolean (name b) \<Longrightarrow> \<not> eq_null (quantity b) \<Longrightarrow>
   post_inventory b w =
     try_catch
       (bind getConnection (\<lambda>conn.
          bind (query (INSERT (name b) (quantity b) (js_or (price b) (JNum (Fin 0)))
                         (js_or (category b) (JStr [])) (js_or (supplier b) (JStr [])))) (\<lambda>_.
          bind conn_end (\<lambda>_.
          return (respond 200 (JsonMessage ''Item added''))))))
       (\<lambda>err w. (respond 500 (JsonError ''Database error''),
                 console_error ''POST /inventory error:'' err w)) w"
  by (simp add: post_inventory_def)

lemma put_valid:
  "ToBoolean (name b) \<Longrightarrow> \<not> eq_null (quantity b) \<Longrightarrow>
   put_inventory_id i b w =
     try_catch
       (bind getConnection (\<lambda>conn.
          bind (query (UPDATE_WHERE_id (name b) (quantity b) (js_or (price b) (JNum (Fin 0)))
                         (js_or (category b) (JStr [])) (js_or (supplier b) (JStr [])) i)) (\<lambda>result.
          bind conn_end (\<lambda>_.
          return (if affectedRows result = 0 then respond 404 (JsonError ''Item not found'')
                  else respond 200 (JsonMessage ''Item updated''))))))
       (\<lambda>err w. (respond 500 (JsonError ''Database error''),
                 console_error ''PUT /inventory/:id error:'' err w)) w"
  by (simp add: put_inventory_id_def)

lemma post_valid_status:
  assumes "ToBoolean (name b)" "\<not> eq_null (quantity b)"
  shows "status (fst (post_inventory b w)) \<noteq> 400"
  unfolding post_valid [OF assms] connect_query_end
  by (simp add: respond_def split: option.splits prod.splits)

lemma put_valid_status:
  assumes "ToBoolean (name b)" "\<not> eq_null (quantity b)"
  shows "status (fst (put_inventory_id i b w)) \<noteq> 400"
  unfolding put_valid [OF assms] connect_query_end
  by (simp add: respond_def split: option.splits prod.splits)

lemma post_valid_events:
  assumes "ToBoolean (name b)" "\<not> eq_null (quantity b)" "connect_error w = None"
  shows "events (snd (post_inventory b w)) =
     events w @ [Connected, Queried (INSERT (name b) (quantity b) (js_or (price b) (JNum (Fin 0)))
                         (js_or (category b) (JStr [])) (js_or (supplier b) (JStr [])))]
       @ (if query_error w = None \<and> end_error w = None then [Ended] else [])"
  unfolding post_valid [OF assms(1,2)] connect_query_end using assms(3)
  by (simp add: respond_def console_error_def split: option.splits prod.splits)

lemma put_valid_events:
  assumes "ToBoolean (name b)" "\<not> eq_null (quantity b)" "connect_error w = None"
  shows "events (snd (put_inventory_id i b w)) =
     events w @ [Connected, Queried (UPDATE_WHERE_id (name b) (quantity b) (js_or (price b) (JNum (Fin 0)))
                         (js_or (category b) (JStr [])) (js_or (supplier b) (JStr [])) i)]
       @ (if query_error w = None \<and> end_error w = None then [Ended] else [])"
  unfolding put_valid [OF assms(1,2)] connect_query_end using assms(3)
  by (simp add: respond_def console_error_def split: option.splits prod.splits)

section \<open>Validation of a create request\<close>

text \<open>
  C4: For every create (POST) request body in which \<open>name\<close> is absent or empty or
  \<open>quantity\<close> is absent, the handler responds 400 with the body
  \<^verbatim>\<open>{error:"Name and quantity are required"}\<close> and the store is left unchanged: the world
  after the request is the world before it, so no connection is opened and no row is
  inserted. For every body with a non-empty \<open>name\<close> and a present \<open>quantity\<close>, validation
  passes: the status is not 400, and once the connection is open the handler sends the INSERT
  with the body's name and quantity and the defaulted optional fields. An explicit
  \<^verbatim>\<open>null\<close> counts as absent, as in the code's test \<^verbatim>\<open>quantity == null\<close>.
\<close>

theorem post_inventory_validation:
  "((name b = JUndefined \<or> name b = JNull \<or> name b = JStr []
       \<or> quantity b = JUndefined \<or> quantity b = JNull)
      \<longrightarrow> post_inventory b w = (respond 400 (JsonError ''Name and quantity are required''), w))
   \<and> ((\<exists>s. name b = JStr s \<and> s \<noteq> []) \<and> quantity b \<noteq> JUndefined \<and> quantity b \<noteq> JNull
      \<longrightarrow> status (fst (post_inventory b w)) \<noteq> 400
        \<and> (connect_error w = None \<longrightarrow>
             Queried (INSERT (name b) (quantity b) (js_or (price b) (JNum (Fin 0)))
                        (js_or (category b) (JStr [])) (js_or (supplier b) (JStr [])))
               \<in> set (events (snd (post_inventory b w)))))"
proof (intro conjI impI)
  assume "name b = JUndefined \<or> name b = JNull \<or> name b = JStr []
    \<or> quantity b = JUndefined \<or> quantity b = JNull"
  then have "\<not> ToBoolean (name b) \<or> eq_null (quantity b)"
    by (auto simp: eq_null_def)
  then show "post_inventory b w = (respond 400 (JsonError ''Name and quantity are required''), w)"
    by (rule post_invalid)
next
  assume a: "(\<exists>s. name b = JStr s \<and> s \<noteq> []) \<and> quantity b \<noteq> JUndefined \<and> quantity b \<noteq> JNull"
  then have v: "ToBoolean (name b)" "\<not> eq_null (quantity b)"
    by (auto simp: eq_null_def)
  show "status (fst (post_inventory b w)) \<noteq> 400"
    by (rule post_valid_status [OF v])
  assume "connect_error w = None"
  then show "Queried (INSERT (name b) (quantity b) (js_or (price b) (JNum (Fin 0)))
                        (js_or (category b) (JStr [])) (js_or (supplier b) (JStr [])))
               \<in> set (events (snd (post_inventory b w)))"
    by (simp add: post_valid_events [OF v])
qed

theorem post_inventory_validation_witness:
  "post_inventory nameless empty_store
     = (respond 400 (JsonError ''Name and quantity are required''), empty_store)
   \<and> status (fst (post_inventory widget empty_store)) \<noteq> 400
   \<and> Queried (INSERT (JStr ''Widget'') (JNum (Fin 5)) (JNum (Fin 0)) (JStr []) (JStr []))
        \<in> set (events (snd (post_inventory widget empty_store)))"
  using post_inventory_validation [of nameless empty_store]
    post_inventory_validation [of widget empty_store]
  by (simp add: nameless_def widget_def empty_store_def js_or_def)

section \<open>Validation and defaulting on create and update\<close>

lemma post_status_400_iff:
  "status (fst (post_inventory b w)) = 400 \<longleftrightarrow> \<not> ToBoolean (name b) \<or> eq_null (quantity b)"
  using post_invalid [of b w] post_valid_status [of b w] by (auto simp: respond_def)

lemma put_status_400_iff:
  "status (fst (put_inventory_id i b w)) = 400 \<longleftrightarrow> \<not> ToBoolean (name b) \<or> eq_null (quantity b)"
  using put_invalid [of b i w] put_valid_status [of b i w] by (auto simp: respond_def)

text \<open>
  C9: The validation of create and of update treats name and quantity differently. A body
  whose quantity is the number 0 and whose name is truthy and not the empty string passes
  validation on both routes and proceeds to the store: the status is not 400 and, once the
  connection is open, the INSERT or UPDATE with quantity 0 is sent. A body whose name is the
  empty string and whose quantity is present is rejected with 400 on both routes, the world
  unchanged. In general either route answers 400 exactly when the name is falsy or the
  quantity is \<^verbatim>\<open>null\<close> or absent: the quantity is tested for presence only, the name for
  truthiness.
\<close>

theorem validation_asymmetry:
  "(name b \<noteq> JStr [] \<and> ToBoolean (name b) \<and> quantity b = JNum (Fin 0) \<longrightarrow>
      status (fst (post_inventory b w)) \<noteq> 400 \<and> status (fst (put_inventory_id i b w)) \<noteq> 400
      \<and> (connect_error w = None \<longrightarrow>
           Queried (INSERT (name b) (JNum (Fin 0)) (js_or (price b) (JNum (Fin 0)))
                      (js_or (category b) (JStr [])) (js_or (supplier b) (JStr [])))
             \<in> set (events (snd (post_inventory b w)))
         \<and> Queried (UPDATE_WHERE_id (name b) (JNum (Fin 0)) (js_or (price b) (JNum (Fin 0)))
                      (js_or (category b) (JStr [])) (js_or (supplier b) (JStr [])) i)
             \<in> set (events (snd (put_inventory_id i b w)))))
   \<and> (name b = JStr [] \<and> quantity b \<noteq> JNull \<and> quantity b \<noteq> JUndefined \<longrightarrow>
        post_inventory b w = (respond 400 (JsonError ''Name and quantity are required''), w)
      \<and> put_inventory_id i b w = (respond 400 (JsonError ''Name and quantity are required''), w))
   \<and> (status (fst (post_inventory b w)) = 400 \<longleftrightarrow> \<not> ToBoolean (name b) \<or> eq_null (quantity b))
   \<and> (status (fst (put_inventory_id i b w)) = 400 \<longleftrightarrow> \<not> ToBoolean (name b) \<or> eq_null (quantity b))"
proof (intro conjI impI)
  assume a: "name b \<noteq> JStr [] \<and> ToBoolean (name b) \<and> quantity b = JNum (Fin 0)"
  then have v: "ToBoolean (name b)" "\<not> eq_null (quantity b)" and q: "quantity b = JNum (Fin 0)"
    by (simp_all add: eq_null_def)
  show "status (fst (post_inventory b w)) \<noteq> 400" by (rule post_valid_status [OF v])
  show "status (fst (put_inventory_id i b w)) \<noteq> 400" by (rule put_valid_status [OF v])
  assume c: "connect_error w = None"
  show "Queried (INSERT (name b) (JNum (Fin 0)) (js_or (price b) (JNum (Fin 0)))
                      (js_or (category b) (JStr [])) (js_or (supplier b) (JStr [])))
             \<in> set (events (snd (post_inventory b w)))"
    using q by (simp add: post_valid_events [OF v c])
  show "Queried (UPDATE_WHERE_id (name b) (JNum (Fin 0)) (js_or (price b) (JNum (Fin 0)))
                      (js_or (category b) (JStr [])) (js_or (supplier b) (JStr [])) i)
             \<in> set (events (snd (put_inventory_id i b w)))"
    using q by (simp add: put_valid_events [OF v c])
next
  assume "name b = JStr [] \<and> quantity b \<noteq> JNull \<and> quantity b \<noteq> JUndefined"
  then have n: "\<not> ToBoolean (name b) \<or> eq_null (quantity b)" by simp
  show "post_inventory b w = (respond 400 (JsonError ''Name and quantity are required''), w)"
    by (rule post_invalid [OF n])
  show "put_inventory_id i b w = (respond 400 (JsonError ''Name and quantity are required''), w)"
    by (rule put_invalid [OF n])
next
  show "status (fst (post_inventory b w)) = 400 \<longleftrightarrow> \<not> ToBoolean (name b) \<or> eq_null (quantity b)"
    by (rule post_status_400_iff)
  show "status (fst (put_inventory_id i b w)) = 400 \<longleftrightarrow> \<not> ToBoolean (name b) \<or> eq_null (quantity b)"
    by (rule put_status_400_iff)
qed

theorem validation_asymmetry_witness:
  "status (fst (post_inventory zero_widget empty_store)) \<noteq> 400
   \<and> status (fst (put_inventory_id 1 zero_widget small_store)) \<noteq> 400
   \<and> Queried (INSERT (JStr ''Widget'') (JNum (Fin 0)) (JNum (Fin 0)) (JStr []) (JStr []))
        \<in> set (events (snd (post_inventory zero_widget empty_store)))
   \<and> post_inventory empty_name empty_store
        = (respond 400 (JsonError ''Name and quantity are required''), empty_store)
   \<and> put_inventory_id 1 empty_name small_store
        = (respond 400 (JsonError ''Name and quantity are required''), small_store)"
  using validation_asymmetry [of zero_widget empty_store 1]
    validation_asymmetry [of zero_widget small_store 1]
    validation_asymmetry [of empty_name empty_store 1]
    validation_asymmetry [of empty_name small_store 1]
  by (simp add: zero_widget_def empty_name_def empty_store_def small_store_def js_or_def eq_null_def)


lemma post_stored:
  assumes "ToBoolean (name b)" "\<not> eq_null (quantity b)" "no_fault w"
  shows "table (snd (post_inventory b w)) = table w @
      [\<lparr>name = name b, quantity = quantity b, price = js_or (price b) (JNum (Fin 0)),
        category = js_or (category b) (JStr []), supplier = js_or (supplier b) (JStr []),
        item_id = next_id w\<rparr>]"
  unfolding post_valid [OF assms(1,2)] connect_query_end using assms(3)
  by (simp add: no_fault_def)

lemma put_stored:
  assumes "ToBoolean (name b)" "\<not> eq_null (quantity b)" "no_fault w"
  shows "table (snd (put_inventory_id i b w)) =
      map (\<lambda>r. if item_id r = i
                then r\<lparr>name := name b, quantity := quantity b, price := js_or (price b) (JNum (Fin 0)),
                  category := js_or (category b) (JStr []), supplier := js_or (supplier b) (JStr [])\<rparr>
                else r) (table w)"
  unfolding put_valid [OF assms(1,2)] connect_query_end using assms(3)
  by (simp add: no_fault_def)

lemma falsy_values:
  "\<not> ToBoolean v \<longleftrightarrow> v = JUndefined \<or> v = JNull \<or> v = JBool False \<or> v = JNum (Fin 0) \<or> v = JNum NaN \<or> v = JStr []"
  by (cases v) auto


lemma put_stored_row:
  assumes "ToBoolean (name b)" "\<not> eq_null (quantity b)" "no_fault w"
    and r: "r \<in> set (table (snd (put_inventory_id i b w)))" "item_id r = i"
  shows "name r = name b \<and> quantity r = quantity b \<and> price r = js_or (price b) (JNum (Fin 0))
     \<and> category r = js_or (category b) (JStr []) \<and> supplier r = js_or (supplier b) (JStr [])"
proof -
  from r(1) obtain r0 where r0: "r0 \<in> set (table w)"
    and eq: "r = (if item_id r0 = i
                then r0\<lparr>name := name b, quantity := quantity b, price := js_or (price b) (JNum (Fin 0)),
                  category := js_or (category b) (JStr []), supplier := js_or (supplier b) (JStr [])\<rparr>
                else r0)"
    unfolding put_stored [OF assms(1-3)] by auto
  show ?thesis
  proof (cases "item_id r0 = i")
    case True
    with eq show ?thesis by simp
  next
    case False
    with eq r(2) show ?thesis by simp
  qed
qed

lemma post_stored_last:
  assumes "ToBoolean (name b)" "\<not> eq_null (quantity b)" "no_fault w"
  shows "last (table (snd (post_inventory b w))) =
      \<lparr>name = name b, quantity = quantity b, price = js_or (price b) (JNum (Fin 0)),
        category = js_or (category b) (JStr []), supplier = js_or (supplier b) (JStr []),
        item_id = next_id w\<rparr>"
  by (simp add: post_stored [OF assms])

text \<open>
  C10: On both create and update the defaulting of the optional fields applies to every
  falsy value that the body supplies, not only to absent fields. For a body that passes
  validation and a store that answers: if the body's price is \<open>0\<close>, the empty string,
  \<^verbatim>\<open>null\<close> or \<^verbatim>\<open>false\<close>, the row that create appends and every row that update
  overwrites have price \<open>0\<close>; if its category (its supplier) is any falsy value, they have
  the empty string as category (as supplier).
\<close>

theorem falsy_optional_fields_default:
  assumes "ToBoolean (name b)" "\<not> eq_null (quantity b)" "no_fault w"
  shows "(price b \<in> {JNum (Fin 0), JStr [], JNull, JBool False} \<longrightarrow>
            price (last (table (snd (post_inventory b w)))) = JNum (Fin 0)
          \<and> (\<forall>r \<in> set (table (snd (put_inventory_id i b w))). item_id r = i \<longrightarrow> price r = JNum (Fin 0)))
       \<and> (\<not> ToBoolean (category b) \<longrightarrow>
            category (last (table (snd (post_inventory b w)))) = JStr []
          \<and> (\<forall>r \<in> set (table (snd (put_inventory_id i b w))). item_id r = i \<longrightarrow> category r = JStr []))
       \<and> (\<not> ToBoolean (supplier b) \<longrightarrow>
            supplier (last (table (snd (post_inventory b w)))) = JStr []
          \<and> (\<forall>r \<in> set (table (snd (put_inventory_id i b w))). item_id r = i \<longrightarrow> supplier r = JStr []))"
proof (intro conjI impI ballI)
  assume p: "price b \<in> {JNum (Fin 0), JStr [], JNull, JBool False}"
  then have f: "js_or (price b) (JNum (Fin 0)) = JNum (Fin 0)"
    by (auto simp: js_or_def)
  show "price (last (table (snd (post_inventory b w)))) = JNum (Fin 0)"
    by (simp add: post_stored_last [OF assms] f)
  fix r assume "r \<in> set (table (snd (put_inventory_id i b w)))" "item_id r = i"
  then show "price r = JNum (Fin 0)"
    using put_stored_row [OF assms] f by simp
next
  assume "\<not> ToBoolean (category b)"
  then have f: "js_or (category b) (JStr []) = JStr []"
    by (simp add: js_or_def)
  show "category (last (table (snd (post_inventory b w)))) = JStr []"
    by (simp add: post_stored_last [OF assms] f)
  fix r assume "r \<in> set (table (snd (put_inventory_id i b w)))" "item_id r = i"
  then show "category r = JStr []"
    using put_stored_row [OF assms] f by simp
next
  assume "\<not> ToBoolean (supplier b)"
  then have f: "js_or (supplier b) (JStr []) = JStr []"
    by (simp add: js_or_def)
  show "supplier (last (table (snd (post_inventory b w)))) = JStr []"
    by (simp add: post_stored_last [OF assms] f)
  fix r assume "r \<in> set (table (snd (put_inventory_id i b w)))" "item_id r = i"
  then show "supplier r = JStr []"
    using put_stored_row [OF assms] f by simp
qed



theorem falsy_optional_fields_default_witness:
  "price zero_widget = JStr [] \<and> category zero_widget = JNull \<and> supplier zero_widget = JBool False
   \<and> price (last (table (snd (post_inventory zero_widget empty_store)))) = JNum (Fin 0)
   \<and> category (last (table (snd (post_inventory zero_widget empty_store)))) = JStr []
   \<and> supplier (last (table (snd (post_inventory zero_widget empty_store)))) = JStr []
   \<and> item_id (table (snd (put_inventory_id 2 zero_widget small_store)) ! 1) = 2
   \<and> price (table (snd (put_inventory_id 2 zero_widget small_store)) ! 1) = JNum (Fin 0)
   \<and> category (table (snd (put_inventory_id 2 zero_widget small_store)) ! 1) = JStr []
   \<and> supplier (table (snd (put_inventory_id 2 zero_widget small_store)) ! 1) = JStr []"
proof -
  have v: "ToBoolean (name zero_widget)" "\<not> eq_null (quantity zero_widget)"
    by (simp_all add: zero_widget_def eq_null_def)
  have e: "no_fault empty_store" and s: "no_fault small_store"
    by (simp_all add: no_fault_def empty_store_def small_store_def)
  have f: "price zero_widget \<in> {JNum (Fin 0), JStr [], JNull, JBool False}"
    "\<not> ToBoolean (category zero_widget)" "\<not> ToBoolean (supplier zero_widget)"
    "price zero_widget = JStr []" "category zero_widget = JNull" "supplier zero_widget = JBool False"
    by (simp_all add: zero_widget_def)
  let ?r = "table (snd (put_inventory_id 2 zero_widget small_store)) ! 1"
  have l: "length (table (snd (put_inventory_id 2 zero_widget small_store))) = 2"
    and i: "item_id ?r = 2"
    unfolding put_stored [OF v s] by (simp_all add: small_store_def)
  from l have m: "?r \<in> set (table (snd (put_inventory_id 2 zero_widget small_store)))"
    by simp
  from falsy_optional_fields_default [OF v e, of 2] f
  have a: "price (last (table (snd (post_inventory zero_widget empty_store)))) = JNum (Fin 0)"
    "category (last (table (snd (post_inventory zero_widget empty_store)))) = JStr []"
    "supplier (last (table (snd (post_inventory zero_widget empty_store)))) = JStr []"
    by blast+
  from falsy_optional_fields_default [OF v s, of 2] f m i
  have b: "price ?r = JNum (Fin 0)" "category ?r = JStr []" "supplier ?r = JStr []"
    by blast+
  from f(4-6) a i b show ?thesis by (intro conjI)
qed

section \<open>Ids that match no row\<close>

lemma get_inventory_id_run:
  "get_inventory_id i w =
    (case connect_error w of
       Some e \<Rightarrow> (respond 500 (JsonError ''Database error''), console_error ''GET /inventory/:id error:'' e w)
     | None \<Rightarrow>
        (case query_error w of
           Some e \<Rightarrow> (respond 500 (JsonError ''Database error''),
              console_error ''GET /inventory/:id error:'' e (w\<lparr>events := events w @ [Connected, Queried (SELECT_WHERE_id i)]\<rparr>))
         | None \<Rightarrow>
            (case end_error w of
               Some e \<Rightarrow> (respond 500 (JsonError ''Database error''),
                  console_error ''GET /inventory/:id error:'' e (w\<lparr>events := events w @ [Connected, Queried (SELECT_WHERE_id i)]\<rparr>))
             | None \<Rightarrow>
                 (if filter (\<lambda>r. item_id r = i) (table w) = [] then respond 404 (JsonError ''Item not found'')
                  else respond 200 (JsonItem (filter (\<lambda>r. item_id r = i) (table w) ! 0)),
                  w\<lparr>events := events w @ [Connected, Queried (SELECT_WHERE_id i), Ended]\<rparr>))))"
  unfolding get_inventory_id_def connect_query_end
  by (simp split: option.splits)

lemma delete_inventory_id_run:
  "delete_inventory_id i w =
    (case connect_error w of
       Some e \<Rightarrow> (respond 500 (JsonError ''Database error''), console_error ''DELETE /inventory/:id error:'' e w)
     | None \<Rightarrow>
        (case query_error w of
           Some e \<Rightarrow> (respond 500 (JsonError ''Database error''),
              console_error ''DELETE /inventory/:id error:'' e (w\<lparr>events := events w @ [Connected, Queried (DELETE_WHERE_id i)]\<rparr>))
         | None \<Rightarrow>
            (case end_error w of
               Some e \<Rightarrow> (respond 500 (JsonError ''Database error''),
                  console_error ''DELETE /inventory/:id error:'' e
                    (w\<lparr>table := filter (\<lambda>r. item_id r \<noteq> i) (table w),
                       events := events w @ [Connected, Queried (DELETE_WHERE_id i)]\<rparr>))
             | None \<Rightarrow>
                 (if filter (\<lambda>r. item_id r = i) (table w) = [] then respond 404 (JsonError ''Item not found'')
                  else respond 200 (JsonMessage ''Item deleted''),
                  w\<lparr>table := filter (\<lambda>r. item_id r \<noteq> i) (table w),
                    events := events w @ [Connected, Queried (DELETE_WHERE_id i), Ended]\<rparr>))))"
  unfolding delete_inventory_id_def connect_query_end
  by (simp split: option.splits)

lemma put_inventory_id_run:
  assumes "ToBoolean (name b)" "\<not> eq_null (quantity b)"
  shows "fst (put_inventory_id i b w) =
    (if no_fault w then
       (if filter (\<lambda>r. item_id r = i) (table w) = [] then respond 404 (JsonError ''Item not found'')
        else respond 200 (JsonMessage ''Item updated''))
     else respond 500 (JsonError ''Database error''))"
  unfolding put_valid [OF assms] connect_query_end
  by (simp add: no_fault_def split: option.splits)

lemma no_match: "filter (\<lambda>r. item_id r = i) t = [] \<longleftrightarrow> i \<notin> item_id ` set t"
  by (auto simp: filter_empty_conv)

text \<open>
  C3, as amended: For every id that has no matching row, when the store answers, get-by-id
  and delete respond 404 with the body \<^verbatim>\<open>{error:"Item not found"}\<close>, and so does update
  when its body passes validation; update never responds 500 there (a body that fails
  validation is answered 400 before the store is consulted). Conversely, when the id matches
  a row, update and delete do not respond 404, whatever the body and whether or not the store
  fails.
\<close>

theorem missing_id_not_found:
  "(i \<notin> item_id ` set (table w) \<and> no_fault w \<longrightarrow>
       fst (get_inventory_id i w) = respond 404 (JsonError ''Item not found'')
     \<and> fst (delete_inventory_id i w) = respond 404 (JsonError ''Item not found'')
     \<and> (ToBoolean (name b) \<and> \<not> eq_null (quantity b) \<longrightarrow>
          fst (put_inventory_id i b w) = respond 404 (JsonError ''Item not found''))
     \<and> status (fst (put_inventory_id i b w)) \<noteq> 500)
   \<and> (i \<in> item_id ` set (table w) \<longrightarrow>
         status (fst (put_inventory_id i b w)) \<noteq> 404
       \<and> status (fst (delete_inventory_id i w)) \<noteq> 404)"
proof (intro conjI impI)
  assume a: "i \<notin> item_id ` set (table w) \<and> no_fault w"
  then have m: "filter (\<lambda>r. item_id r = i) (table w) = []" and n: "no_fault w"
    by (simp_all add: no_match)
  from n have f: "connect_error w = None" "query_error w = None" "end_error w = None"
    by (simp_all add: no_fault_def)
  show "fst (get_inventory_id i w) = respond 404 (JsonError ''Item not found'')"
    by (simp add: get_inventory_id_run f m)
  show "fst (delete_inventory_id i w) = respond 404 (JsonError ''Item not found'')"
    by (simp add: delete_inventory_id_run f m)
  show "status (fst (put_inventory_id i b w)) \<noteq> 500"
  proof (cases "ToBoolean (name b) \<and> \<not> eq_null (quantity b)")
    case True
    then show ?thesis by (simp add: put_inventory_id_run n m respond_def)
  next
    case False
    then show ?thesis using put_invalid [of b i w] by (auto simp: respond_def)
  qed
  assume "ToBoolean (name b) \<and> \<not> eq_null (quantity b)"
  then show "fst (put_inventory_id i b w) = respond 404 (JsonError ''Item not found'')"
    by (simp add: put_inventory_id_run n m)
next
  assume "i \<in> item_id ` set (table w)"
  then have m: "filter (\<lambda>r. item_id r = i) (table w) \<noteq> []"
    by (simp add: no_match)
  show "status (fst (put_inventory_id i b w)) \<noteq> 404"
  proof (cases "ToBoolean (name b) \<and> \<not> eq_null (quantity b)")
    case True
    then show ?thesis by (simp add: put_inventory_id_run m respond_def)
  next
    case False
    then show ?thesis using put_invalid [of b i w] by (auto simp: respond_def)
  qed
  show "status (fst (delete_inventory_id i w)) \<noteq> 404"
    using m by (simp add: delete_inventory_id_run respond_def split: option.splits)
qed

theorem missing_id_not_found_witness:
  "fst (get_inventory_id 999999 small_store) = respond 404 (JsonError ''Item not found'')
   \<and> fst (delete_inventory_id 999999 small_store) = respond 404 (JsonError ''Item not found'')
   \<and> fst (put_inventory_id 999999 widget small_store) = respond 404 (JsonError ''Item not found'')
   \<and> status (fst (put_inventory_id 2 widget small_store)) \<noteq> 404
   \<and> status (fst (delete_inventory_id 2 small_store)) \<noteq> 404"
proof -
  have t: "item_id ` set (table small_store) = {1, 2}"
    by (auto simp add: small_store_def)
  have h: "999999 \<notin> item_id ` set (table small_store) \<and> no_fault small_store"
    "2 \<in> item_id ` set (table small_store)"
    "ToBoolean (name widget) \<and> \<not> eq_null (quantity widget)"
    unfolding t by (simp_all add: no_fault_def small_store_def widget_def eq_null_def)
  from missing_id_not_found [of 999999 small_store widget]
    missing_id_not_found [of 2 small_store widget] h
  show ?thesis by blast
qed

text \<open>
  C3 as stated fails in two ways on an id that matches no row. An update whose body has no
  name is answered 400, not 404: the guard of the handler runs before the store is asked.
  And when the database rejects the statement, get-by-id is answered with the store error,
  status 500.
\<close>

theorem missing_id_counterexample:
  "999999 \<notin> item_id ` set (table small_store)
   \<and> fst (put_inventory_id 999999 nameless small_store)
       = respond 400 (JsonError ''Name and quantity are required'')
   \<and> 999999 \<notin> item_id ` set (table broken_store)
   \<and> fst (get_inventory_id 999999 broken_store) = respond 500 (JsonError ''Database error'')"
proof -
  have "\<not> ToBoolean (name nameless) \<or> eq_null (quantity nameless)"
    by (simp add: nameless_def)
  from put_invalid [OF this, of 999999 small_store] show ?thesis
    by (auto simp add: get_inventory_id_run broken_store_def small_store_def)
qed

section \<open>Store failures\<close>

lemma failure_caught:
  "\<not> no_fault w \<Longrightarrow>
   fst (try_catch (bind getConnection (\<lambda>_. bind (query st) (\<lambda>res. bind conn_end (\<lambda>_. return (k res)))))
          (\<lambda>err w. (r, g err w)) w) = r"
  unfolding connect_query_end
  by (auto simp add: no_fault_def split: option.splits prod.splits)

text \<open>
  C8: For every request on which the store fails, at the connection, at the statement or at
  the release of the connection, the JSON routes respond 500 with exactly the body
  \<^verbatim>\<open>{error:"Database error"}\<close> and the export routes respond 500 with a fixed plain text,
  \<^verbatim>\<open>Failed to export CSV\<close> or \<^verbatim>\<open>Failed to export PDF\<close>. The response is the same
  whatever the raw error text is, so no internal detail reaches the body. Create and update
  reach the store only with a body that passes validation.
\<close>

theorem store_failure_responses:
  assumes "\<not> no_fault w"
  shows "fst (get_inventory w) = respond 500 (JsonError ''Database error'')
    \<and> fst (get_inventory_id i w) = respond 500 (JsonError ''Database error'')
    \<and> fst (delete_inventory_id i w) = respond 500 (JsonError ''Database error'')
    \<and> (ToBoolean (name b) \<and> \<not> eq_null (quantity b) \<longrightarrow>
         fst (post_inventory b w) = respond 500 (JsonError ''Database error'')
       \<and> fst (put_inventory_id i b w) = respond 500 (JsonError ''Database error''))
    \<and> fst (export_csv stringify w) = respond 500 (Plain ''Failed to export CSV'')
    \<and> fst (export_pdf B w) = respond 500 (Plain ''Failed to export PDF'')"
proof (intro conjI impI)
  show "fst (get_inventory w) = respond 500 (JsonError ''Database error'')"
    unfolding get_inventory_def by (rule failure_caught [OF assms])
  show "fst (get_inventory_id i w) = respond 500 (JsonError ''Database error'')"
    unfolding get_inventory_id_def by (rule failure_caught [OF assms])
  show "fst (delete_inventory_id i w) = respond 500 (JsonError ''Database error'')"
    unfolding delete_inventory_id_def by (rule failure_caught [OF assms])
  show "fst (export_csv stringify w) = respond 500 (Plain ''Failed to export CSV'')"
    unfolding export_csv_def Let_def by (rule failure_caught [OF assms])
  show "fst (export_pdf B w) = respond 500 (Plain ''Failed to export PDF'')"
    unfolding export_pdf_def Let_def by (rule failure_caught [OF assms])
next
  assume "ToBoolean (name b) \<and> \<not> eq_null (quantity b)"
  then have v: "ToBoolean (name b)" "\<not> eq_null (quantity b)" by simp_all
  show "fst (post_inventory b w) = respond 500 (JsonError ''Database error'')"
    unfolding post_valid [OF v] by (rule failure_caught [OF assms])
  show "fst (put_inventory_id i b w) = respond 500 (JsonError ''Database error'')"
    unfolding put_valid [OF v] by (rule failure_caught [OF assms])
qed

theorem store_failure_responses_witness:
  "fst (get_inventory broken_store) = respond 500 (JsonError ''Database error'')
   \<and> fst (get_inventory_id 1 unreachable_store) = respond 500 (JsonError ''Database error'')
   \<and> fst (delete_inventory_id 1 broken_store) = respond 500 (JsonError ''Database error'')
   \<and> fst (post_inventory widget broken_store) = respond 500 (JsonError ''Database error'')
   \<and> fst (put_inventory_id 1 widget unreachable_store) = respond 500 (JsonError ''Database error'')
   \<and> fst (export_csv plain_string broken_store) = respond 500 (Plain ''Failed to export CSV'')
   \<and> fst (export_pdf no_builtins unreachable_store) = respond 500 (Plain ''Failed to export PDF'')"
proof -
  have f: "\<not> no_fault broken_store" "\<not> no_fault unreachable_store"
    by (simp_all add: no_fault_def broken_store_def unreachable_store_def)
  have v: "ToBoolean (name widget) \<and> \<not> eq_null (quantity widget)"
    by (simp add: widget_def eq_null_def)
  from store_failure_responses [OF f(1), of 1 widget plain_string no_builtins]
    store_failure_responses [OF f(2), of 1 widget plain_string no_builtins] v
  show ?thesis by blast
qed

section \<open>The connection of a request\<close>

lemma get_inventory_run:
  "get_inventory w =
    (case connect_error w of
       Some e \<Rightarrow> (respond 500 (JsonError ''Database error''), console_error ''GET /inventory error:'' e w)
     | None \<Rightarrow>
        (case query_error w of
           Some e \<Rightarrow> (respond 500 (JsonError ''Database error''),
              console_error ''GET /inventory error:'' e (w\<lparr>events := events w @ [Connected, Queried SELECT_ORDER_BY_name]\<rparr>))
         | None \<Rightarrow>
            (case end_error w of
               Some e \<Rightarrow> (respond 500 (JsonError ''Database error''),
                  console_error ''GET /inventory error:'' e (w\<lparr>events := events w @ [Connected, Queried SELECT_ORDER_BY_name]\<rparr>))
             | None \<Rightarrow>
                 (respond 200 (JsonRows (sort_key (\<lambda>r. name_key (name r)) (table w))),
                  w\<lparr>events := events w @ [Connected, Queried SELECT_ORDER_BY_name, Ended]\<rparr>))))"
  unfolding get_inventory_def connect_query_end
  by (simp split: option.splits)

lemma statement_failure_events:
  "connect_error w = None \<Longrightarrow> query_error w = Some e \<Longrightarrow>
   events (snd (try_catch (bind getConnection (\<lambda>_. bind (query st) (\<lambda>res. bind conn_end (\<lambda>_. return (k res)))))
          (\<lambda>err w. (r, console_error l err w)) w)) = events w @ [Connected, Queried st]"
  unfolding connect_query_end by (simp add: console_error_def)

lemma broken_store_faults:
  "connect_error broken_store = None"
  "query_error broken_store = Some ''ER_LOCK_DEADLOCK: Deadlock found''"
  "events broken_store = []"
  by (simp_all add: broken_store_def small_store_def)

text \<open>
  C6: Every operation on the store opens a connection, executes exactly one statement, and
  releases the connection on every exit path. The code does so when the statement succeeds
  (the last three conjuncts, on the store of two rows) and does not when the statement fails:
  the \<^verbatim>\<open>catch\<close> block answers 500 and \<^verbatim>\<open>conn.end()\<close> is never reached, so the connection
  that was opened stays open. Evaluated on the list, delete and PDF routes when the database
  rejects the statement.
\<close>

theorem statement_failure_leaves_connection_open:
  "events (snd (get_inventory broken_store)) = [Connected, Queried SELECT_ORDER_BY_name]
   \<and> open_connections (snd (get_inventory broken_store)) = 1
   \<and> events (snd (delete_inventory_id 1 broken_store)) = [Connected, Queried (DELETE_WHERE_id 1)]
   \<and> open_connections (snd (delete_inventory_id 1 broken_store)) = 1
   \<and> events (snd (export_pdf no_builtins broken_store)) = [Connected, Queried SELECT_ORDER_BY_name]
   \<and> open_connections (snd (export_pdf no_builtins broken_store)) = 1
   \<and> fst (get_inventory broken_store) = respond 500 (JsonError ''Database error'')
   \<and> events (snd (get_inventory small_store)) = [Connected, Queried SELECT_ORDER_BY_name, Ended]
   \<and> open_connections (snd (get_inventory small_store)) = 0
   \<and> fst (get_inventory small_store) = respond 200 (JsonRows (rev (table small_store)))"
proof -
  have g: "events (snd (get_inventory broken_store)) = [Connected, Queried SELECT_ORDER_BY_name]"
    unfolding get_inventory_def
    by (simp add: statement_failure_events [OF broken_store_faults(1,2)] broken_store_faults(3))
  have d: "events (snd (delete_inventory_id 1 broken_store)) = [Connected, Queried (DELETE_WHERE_id 1)]"
    unfolding delete_inventory_id_def
    by (simp add: statement_failure_events [OF broken_store_faults(1,2)] broken_store_faults(3))
  have p: "events (snd (export_pdf no_builtins broken_store)) = [Connected, Queried SELECT_ORDER_BY_name]"
    unfolding export_pdf_def Let_def
    by (simp add: statement_failure_events [OF broken_store_faults(1,2)] broken_store_faults(3))
  have r: "fst (get_inventory broken_store) = respond 500 (JsonError ''Database error'')"
    by (simp add: get_inventory_run broken_store_faults)
  have s: "get_inventory small_store =
      (respond 200 (JsonRows (rev (table small_store))),
       small_store\<lparr>events := [Connected, Queried SELECT_ORDER_BY_name, Ended]\<rparr>)"
    by (simp add: get_inventory_run small_store_def)
  show ?thesis
    by (simp add: open_connections_def g d p r s)
qed

section \<open>The CSV export read back\<close>

lemma chars_distinct:
  "comma \<noteq> dquote" "comma \<noteq> newline" "dquote \<noteq> newline"
  "dquote \<noteq> comma" "newline \<noteq> comma" "newline \<noteq> dquote"
  by (simp_all add: comma_def dquote_def newline_def)

lemma quoted_body:
  "csv_read Quoted acc rcd recs (csv_escape s @ dquote # rest)
     = csv_read QuoteSeen (rev s @ acc) rcd recs rest"
  by (induction s arbitrary: acc) auto

lemma unquoted_body_comma:
  "\<not> needs_quote s \<Longrightarrow>
   csv_read Unquoted acc rcd recs (s @ comma # rest)
     = csv_read FieldStart [] (rev (rev s @ acc) # rcd) recs rest"
  by (induction s arbitrary: acc) (auto simp: needs_quote_def chars_distinct)

lemma unquoted_body_newline:
  "\<not> needs_quote s \<Longrightarrow>
   csv_read Unquoted acc rcd recs (s @ newline # rest)
     = csv_read FieldStart [] [] (rev (rev (rev s @ acc) # rcd) # recs) rest"
  by (induction s arbitrary: acc) (auto simp: needs_quote_def chars_distinct)

lemma field_comma:
  "csv_read FieldStart [] rcd recs (csv_field s @ comma # rest)
     = csv_read FieldStart [] (s # rcd) recs rest"
proof (cases "needs_quote s")
  case True
  then show ?thesis by (simp add: csv_field_def quoted_body chars_distinct)
next
  case False
  show ?thesis
  proof (cases s)
    case Nil
    then show ?thesis using False by (simp add: csv_field_def chars_distinct)
  next
    case (Cons c cs)
    with False have nq: "\<not> needs_quote cs" and c: "c \<noteq> dquote" "c \<noteq> comma" "c \<noteq> newline"
      by (auto simp: needs_quote_def)
    show ?thesis using False Cons c unquoted_body_comma [OF nq, of "[c]"]
      by (simp add: csv_field_def)
  qed
qed

lemma field_newline:
  "csv_read FieldStart [] rcd recs (csv_field s @ newline # rest)
     = csv_read FieldStart [] [] (rev (s # rcd) # recs) rest"
proof (cases "needs_quote s")
  case True
  then show ?thesis by (simp add: csv_field_def quoted_body chars_distinct)
next
  case False
  show ?thesis
  proof (cases s)
    case Nil
    then show ?thesis using False by (simp add: csv_field_def chars_distinct)
  next
    case (Cons c cs)
    with False have nq: "\<not> needs_quote cs" and c: "c \<noteq> dquote" "c \<noteq> comma" "c \<noteq> newline"
      by (auto simp: needs_quote_def)
    show ?thesis using False Cons c unquoted_body_newline [OF nq, of "[c]"]
      by (simp add: csv_field_def)
  qed
qed

lemma line_read:
  "csv_read FieldStart [] rcd recs (csv_line (f # fs) @ rest)
     = csv_read FieldStart [] [] ((rev rcd @ f # fs) # recs) rest"
proof (induction fs arbitrary: f rcd)
  case Nil
  then show ?case by (simp add: csv_line_def field_newline)
next
  case (Cons g gs)
  have "csv_line (f # g # gs) @ rest = csv_field f @ comma # (csv_line (g # gs) @ rest)"
    by (simp add: csv_line_def)
  then show ?case using Cons [of "f # rcd" g] by (simp add: field_comma)
qed

lemma doc_read:
  "\<forall>r \<in> set rs. r \<noteq> [] \<Longrightarrow>
   csv_read FieldStart [] [] recs (concat (map csv_line rs)) = Some (rev recs @ rs)"
proof (induction rs arbitrary: recs)
  case Nil
  then show ?case by simp
next
  case (Cons r rs)
  then obtain f fs where r: "r = f # fs" by (cases r) auto
  show ?case using Cons line_read [of "[]" recs f fs "concat (map csv_line rs)"] by (simp add: r)
qed

lemma Parser_parse_read:
  "fs \<noteq> [] \<Longrightarrow>
   csv_parse (Parser_parse stringify fs rs) = Some (fs # map (record_strings stringify fs) rs)"
proof -
  assume fs: "fs \<noteq> []"
  have "Parser_parse stringify fs rs = concat (map csv_line (fs # map (record_strings stringify fs) rs))"
    by (simp add: Parser_parse_def comp_def)
  moreover have "\<forall>r \<in> set (fs # map (record_strings stringify fs) rs). r \<noteq> []"
    using fs by (auto simp: record_strings_def)
  ultimately show ?thesis
    unfolding csv_parse_def using doc_read [of "fs # map (record_strings stringify fs) rs" "[]"]
    by simp
qed

lemma export_csv_run:
  "no_fault w \<Longrightarrow>
   fst (export_csv stringify w) =
     \<lparr>status = 200,
      headers = [SetHeader ''Content-Type'' ''text/csv'', Attachment ''inventory.csv''],
      payload = CsvText (Parser_parse stringify
        [''id'', ''name'', ''quantity'', ''price'', ''category'', ''supplier'']
        (sort_key (\<lambda>r. name_key (name r)) (table w)))\<rparr>"
  unfolding export_csv_def Let_def connect_query_end
  by (simp add: no_fault_def)

text \<open>
  C1: For every list of inventory records in the store, reading the CSV that the export route
  produces yields first the header and then, in the order of the listing (sorted by name),
  one row per record whose six fields are, field for field, the string forms of the record's
  id, name, quantity, price, category and supplier. The string forms are arbitrary strings,
  so a field with a comma, a double quote or a newline, which the writer quotes with its
  quotes doubled, is recovered exactly.
\<close>

theorem csv_export_round_trip:
  assumes "no_fault w"
  shows "\<exists>csv. payload (fst (export_csv stringify w)) = CsvText csv
     \<and> csv_parse csv =
         Some ([''id'', ''name'', ''quantity'', ''price'', ''category'', ''supplier'']
               # map (\<lambda>r. [stringify (JNum (Fin (of_int (item_id r)))), stringify (name r),
                            stringify (quantity r), stringify (price r),
                            stringify (category r), stringify (supplier r)])
                   (sort_key (\<lambda>r. name_key (name r)) (table w)))"
proof -
  have "record_strings stringify [''id'', ''name'', ''quantity'', ''price'', ''category'', ''supplier''] =
     (\<lambda>r. [stringify (JNum (Fin (of_int (item_id r)))), stringify (name r),
                            stringify (quantity r), stringify (price r),
                            stringify (category r), stringify (supplier r)])"
    by (rule ext) (simp add: record_strings_def get_field_def)
  then show ?thesis
    using Parser_parse_read [of "[''id'', ''name'', ''quantity'', ''price'', ''category'', ''supplier'']" stringify]
    by (simp add: export_csv_run [OF assms])
qed

lemma small_store_sorted:
  "sort_key (\<lambda>r. name_key (name r)) (table small_store) = rev (table small_store)"
  by (simp add: small_store_def)

theorem csv_export_round_trip_witness:
  "\<exists>csv. payload (fst (export_csv plain_string small_store)) = CsvText csv
     \<and> csv_parse csv =
         Some [[''id'', ''name'', ''quantity'', ''price'', ''category'', ''supplier''],
               [''2'', ''bolt'', [], [], [], ''Acme'' @ [newline] @ ''Ltd''],
               [''1'', ''nut, M4'', ''7'', ''0.25'', ''6'' @ [dquote] @ '' bag'', []]]"
proof -
  have n: "no_fault small_store"
    by (simp add: no_fault_def small_store_def)
  have ps: "plain_string (JNum (Fin 1)) = ''1''" "plain_string (JNum (Fin 2)) = ''2''"
    "plain_string (JNum (Fin 7)) = ''7''"
    by code_simp+
  have pt: "\<And>s. plain_string (JStr s) = s" "plain_string JNull = []"
    by (simp_all add: plain_string_def)
  show ?thesis
    using csv_export_round_trip [OF n, of plain_string]
    unfolding small_store_sorted
    by (simp add: small_store_def ps pt)
qed

text \<open>
  C2: When the store contains no row, the CSV export route returns exactly the header-only
  text \<^verbatim>\<open>id,name,quantity,price,category,supplier\<close> followed by one newline, with status
  200.
\<close>

theorem csv_export_empty_store:
  assumes "table w = []" "no_fault w"
  shows "fst (export_csv stringify w) =
     \<lparr>status = 200,
      headers = [SetHeader ''Content-Type'' ''text/csv'', Attachment ''inventory.csv''],
      payload = CsvText (''id,name,quantity,price,category,supplier'' @ [CHR 0x0A])\<rparr>"
  unfolding export_csv_run [OF assms(2)] assms(1)
  by (simp add: Parser_parse_def csv_line_def csv_field_def needs_quote_def comma_def dquote_def newline_def)

theorem csv_export_empty_store_witness:
  "fst (export_csv plain_string empty_store) =
     \<lparr>status = 200,
      headers = [SetHeader ''Content-Type'' ''text/csv'', Attachment ''inventory.csv''],
      payload = CsvText (''id,name,quantity,price,category,supplier'' @ [CHR 0x0A])\<rparr>"
proof -
  have "table empty_store = []" "no_fault empty_store"
    by (simp_all add: empty_store_def no_fault_def)
  then show ?thesis by (rule csv_export_empty_store)
qed

section \<open>The order of the listing\<close>

lemma export_pdf_run:
  "no_fault w \<Longrightarrow>
   fst (export_pdf B w) =
     \<lparr>status = 200,
      headers =
        [SetHeader ''Content-disposition''
           (''attachment; filename='' @ [dquote] @ ''inventory.pdf'' @ [dquote]),
         SetHeader ''Content-type'' ''application/pdf''],
      payload = PdfStream
        ([NewDocument 30 ''A4'',
          FontSize 18, TextAligned ''Inventory Report'' ''center'',
          MoveDown,
          FontSize 12, TextAt (JStr ''Name'') 50 100,
          TextAt (JStr ''Qty'') 200 100,
          TextAt (JStr ''Price'') 260 100,
          TextAt (JStr ''Category'') 330 100,
          TextAt (JStr ''Supplier'') 420 100]
         @ forEach_row B (sort_key (\<lambda>r. name_key (name r)) (table w)) 120
         @ [EndDocument])\<rparr>"
  unfolding export_pdf_def Let_def connect_query_end
  by (simp add: no_fault_def)

text \<open>
  C7: The list-all operation, used by \<^verbatim>\<open>GET /inventory\<close> and by both export routes, returns
  the inventory records as a sequence sorted by name in ascending order: the three routes
  answer from one and the same sequence, which holds exactly the rows of the table and whose
  names ascend. The JSON route returns it as it is, the CSV route writes its rows in that
  order, and the PDF route draws its rows in that order below the heading.
\<close>

theorem list_all_sorted_by_name:
  assumes "no_fault w"
  shows "\<exists>rs. sorted (map (\<lambda>r. name_key (name r)) rs) \<and> mset rs = mset (table w)
     \<and> fst (get_inventory w) = respond 200 (JsonRows rs)
     \<and> payload (fst (export_csv stringify w)) =
          CsvText (Parser_parse stringify
            [''id'', ''name'', ''quantity'', ''price'', ''category'', ''supplier''] rs)
     \<and> (\<exists>heading. payload (fst (export_pdf B w)) =
          PdfStream (heading @ forEach_row B rs 120 @ [EndDocument]))"
proof (intro exI conjI)
  let ?rs = "sort_key (\<lambda>r. name_key (name r)) (table w)"
  show "sorted (map (\<lambda>r. name_key (name r)) ?rs)"
    by (rule sorted_sort_key)
  show "mset ?rs = mset (table w)"
    by simp
  from assms have f: "connect_error w = None" "query_error w = None" "end_error w = None"
    by (simp_all add: no_fault_def)
  show "fst (get_inventory w) = respond 200 (JsonRows ?rs)"
    by (simp add: get_inventory_run f)
  show "payload (fst (export_csv stringify w)) =
          CsvText (Parser_parse stringify
            [''id'', ''name'', ''quantity'', ''price'', ''category'', ''supplier''] ?rs)"
    by (simp add: export_csv_run [OF assms])
  show "payload (fst (export_pdf B w)) =
     PdfStream ([NewDocument 30 ''A4'',
          FontSize 18, TextAligned ''Inventory Report'' ''center'',
          MoveDown,
          FontSize 12, TextAt (JStr ''Name'') 50 100,
          TextAt (JStr ''Qty'') 200 100,
          TextAt (JStr ''Price'') 260 100,
          TextAt (JStr ''Category'') 330 100,
          TextAt (JStr ''Supplier'') 420 100] @ forEach_row B ?rs 120 @ [EndDocument])"
    by (simp add: export_pdf_run [OF assms])
qed

theorem list_all_sorted_by_name_witness:
  "\<exists>rs. sorted (map (\<lambda>r. name_key (name r)) rs) \<and> mset rs = mset (table small_store)
     \<and> map name rs = [JStr ''bolt'', JStr ''nut, M4'']
     \<and> fst (get_inventory small_store) = respond 200 (JsonRows rs)"
proof -
  have n: "no_fault small_store"
    by (simp add: no_fault_def small_store_def)
  from list_all_sorted_by_name [OF n, of plain_string no_builtins]
  obtain rs where rs: "sorted (map (\<lambda>r. name_key (name r)) rs)" "mset rs = mset (table small_store)"
    "fst (get_inventory small_store) = respond 200 (JsonRows rs)"
    by blast
  from rs(3) have "rs = rev (table small_store)"
    by (simp add: get_inventory_run small_store_def respond_def)
  then have m: "map name rs = [JStr ''bolt'', JStr ''nut, M4'']"
    by (simp add: small_store_def)
  have "sorted (map (\<lambda>r. name_key (name r)) rs) \<and> mset rs = mset (table small_store)
     \<and> map name rs = [JStr ''bolt'', JStr ''nut, M4'']
     \<and> fst (get_inventory small_store) = respond 200 (JsonRows rs)"
    using rs(1) rs(2) m rs(3) by (intro conjI)
  then show ?thesis by (rule exI)
qed

section \<open>The cells of the PDF table\<close>

lemma is_digit_digit_char: "d < 10 \<Longrightarrow> is_digit (digit_char d)"
proof -
  assume "d < 10"
  then have "d \<in> {0, 1, 2, 3, 4, 5, 6, 7, 8, 9}" by auto
  then show ?thesis by (auto simp: is_digit_def digit_char_def)
qed

lemma digits_all_digit: "list_all is_digit (digits n)"
proof (induction n rule: digits.induct)
  case (1 n)
  show ?case
  proof (cases "n < 10")
    case True
    then show ?thesis by (subst digits.simps) (simp add: is_digit_digit_char)
  next
    case False
    with 1 show ?thesis by (subst digits.simps) (simp add: is_digit_digit_char)
  qed
qed

lemma digits_nonempty: "digits n \<noteq> []"
  by (subst digits.simps) simp

lemma minus_not_digit: "is_digit c \<Longrightarrow> c \<noteq> CHR ''-''"
  by (auto simp: is_digit_def)

lemma two_decimal_places_unsigned:
  assumes "list_all is_digit a" "a \<noteq> []" "list_all is_digit b" "length b = 2"
  shows "two_decimal_places (a @ ''.'' @ b)"
proof -
  from assms(1,2) obtain c cs where a: "a = c # cs" and c: "c \<noteq> CHR ''-''"
    by (cases a) (auto simp: minus_not_digit)
  then have s: "strip_sign (a @ ''.'' @ b) = a @ ''.'' @ b" by simp
  have l: "length (a @ ''.'' @ b) = length a + 3" using assms(4) by simp
  have n: "(a @ ''.'' @ b) ! length a = CHR ''.''"
    by (simp add: nth_append)
  show ?thesis
    unfolding two_decimal_places_def s Let_def l
    using assms n by (simp add: a)
qed

lemma two_decimal_places_signed:
  assumes "list_all is_digit a" "a \<noteq> []" "list_all is_digit b" "length b = 2"
  shows "two_decimal_places (''-'' @ a @ ''.'' @ b)"
proof -
  have s: "strip_sign (''-'' @ a @ ''.'' @ b) = a @ ''.'' @ b" by simp
  have l: "length (a @ ''.'' @ b) = length a + 3" using assms(4) by simp
  have n: "(a @ ''.'' @ b) ! length a = CHR ''.''"
    by (simp add: nth_append)
  from assms(2) obtain c cs where a: "a = c # cs" by (cases a) auto
  show ?thesis
    unfolding two_decimal_places_def s Let_def l
    using assms n by (simp add: a)
qed

text \<open>The digits of the hundredths, padded to three places.\<close>

lemma padded_digits:
  fixes n :: nat
  defines "m \<equiv> (if length (digits n) \<le> 2 then replicate (3 - length (digits n)) (CHR ''0'') @ digits n else digits n)"
  shows "list_all is_digit m \<and> 3 \<le> length m"
proof -
  have z: "is_digit (CHR ''0'')" by (simp add: is_digit_def)
  have "list_all is_digit m"
    unfolding m_def using digits_all_digit [of n] z by (simp add: list_all_iff)
  moreover have "3 \<le> length m"
    unfolding m_def by simp
  ultimately show ?thesis by simp
qed


lemma toFixed2_small:
  assumes "\<bar>x\<bar> < 10 ^ 21"
  shows "two_decimal_places (toFixed2 B (Fin x))"
proof -
  define n where "n = nat \<lfloor>\<bar>x\<bar> * 100 + 1 / 2\<rfloor>"
  define m where "m = (if length (digits n) \<le> 2 then replicate (3 - length (digits n)) (CHR ''0'') @ digits n else digits n)"
  from padded_digits [of n] have d: "list_all is_digit m" and l: "3 \<le> length m"
    by (simp_all add: m_def)
  let ?a = "take (length m - 2) m" and ?b = "drop (length m - 2) m"
  have a: "list_all is_digit ?a" "?a \<noteq> []" and b: "list_all is_digit ?b" "length ?b = 2"
    using d l by (auto simp: list_all_iff dest: in_set_takeD in_set_dropD)
  have t: "toFixed2 B (Fin x) = (if x < 0 then ''-'' else []) @ ?a @ ''.'' @ ?b"
    using assms by (simp add: toFixed2_def Let_def n_def m_def)
  show ?thesis
  proof (cases "x < 0")
    case True
    with t two_decimal_places_signed [OF a b] show ?thesis by simp
  next
    case False
    with t two_decimal_places_unsigned [OF a b] show ?thesis by simp
  qed
qed

lemma toFixed2_zero: "toFixed2 B (Fin 0) = ''0.00''"
proof -
  have d: "digits 0 = ''0''" by (subst digits.simps) (simp add: digit_char_def)
  show ?thesis by (simp add: toFixed2_def Let_def d)
qed

lemma price_text_cases:
  "price_text B item =
     (case parseFloat B (price item) of
        NaN \<Rightarrow> ''0.00''
      | Fin x \<Rightarrow> toFixed2 B (Fin x)
      | PosInf \<Rightarrow> ''Infinity''
      | NegInf \<Rightarrow> ''-Infinity'')"
  by (simp add: price_text_def Let_def toFixed2_zero split: jsnum.splits)
     (simp add: toFixed2_def Number_toString_def)

text \<open>
  C5, as amended: For every inventory record that the PDF export route renders, the five
  cells of its row are the name, the quantity, the price, the category and the supplier at
  the columns 50, 200, 260, 330 and 420. A missing quantity is rendered as \<^verbatim>\<open>0\<close>, a missing
  category and a missing supplier as \<^verbatim>\<open>-\<close>. When \<^verbatim>\<open>parseFloat\<close> reads from the price a
  finite number of magnitude below \<open>10^21\<close>, the price is rendered as the currency prefix
  followed by a text with exactly two decimal places; an absent price, a price that is not
  numeric and a price of zero are rendered as the prefix followed by \<^verbatim>\<open>0.00\<close>.
\<close>

theorem pdf_row_cells:
  "row_ops B item y =
     [TextAt (name item) 50 y, TextAt (quantity_cell B item) 200 y,
      TextAt (price_cell B item) 260 y, TextAt (category_cell item) 330 y,
      TextAt (supplier_cell item) 420 y]
   \<and> (eq_null (quantity item) \<longrightarrow> quantity_cell B item = JStr ''0'')
   \<and> (eq_null (category item) \<longrightarrow> category_cell item = JStr ''-'')
   \<and> (eq_null (supplier item) \<longrightarrow> supplier_cell item = JStr ''-'')
   \<and> (\<forall>x. parseFloat B (price item) = Fin x \<and> \<bar>x\<bar> < 10 ^ 21 \<longrightarrow>
         (\<exists>t. price_cell B item = JStr (currency @ t) \<and> two_decimal_places t))
   \<and> (eq_null (price item) \<or> parseFloat B (price item) = NaN \<or> parseFloat B (price item) = Fin 0 \<longrightarrow>
         price_cell B item = JStr (currency @ ''0.00''))"
proof (intro conjI impI allI)
  show "row_ops B item y =
     [TextAt (name item) 50 y, TextAt (quantity_cell B item) 200 y,
      TextAt (price_cell B item) 260 y, TextAt (category_cell item) 330 y,
      TextAt (supplier_cell item) 420 y]"
    by (simp add: row_ops_def)
  show "quantity_cell B item = JStr ''0''" if "eq_null (quantity item)"
    using that by (auto simp: eq_null_def quantity_cell_def js_or_def)
  show "category_cell item = JStr ''-''" if "eq_null (category item)"
    using that by (auto simp: eq_null_def category_cell_def js_or_def)
  show "supplier_cell item = JStr ''-''" if "eq_null (supplier item)"
    using that by (auto simp: eq_null_def supplier_cell_def js_or_def)
  show "\<exists>t. price_cell B item = JStr (currency @ t) \<and> two_decimal_places t"
    if "parseFloat B (price item) = Fin x \<and> \<bar>x\<bar> < 10 ^ 21" for x
    using that toFixed2_small [of x B] by (simp add: price_cell_def price_text_cases)
  show "price_cell B item = JStr (currency @ ''0.00'')"
    if "eq_null (price item) \<or> parseFloat B (price item) = NaN \<or> parseFloat B (price item) = Fin 0"
  proof -
    from that have "parseFloat B (price item) = NaN \<or> parseFloat B (price item) = Fin 0"
      by (auto simp: eq_null_def parseFloat_def)
    then show ?thesis
      by (auto simp: price_cell_def price_text_cases toFixed2_zero)
  qed
qed

theorem pdf_row_cells_witness:
  "row_ops no_builtins plain_item 120 =
     [TextAt (JStr ''Widget'') 50 120, TextAt (JStr ''0'') 200 120,
      TextAt (JStr (currency @ ''12.50'')) 260 120, TextAt (JStr ''-'') 330 120,
      TextAt (JStr ''-'') 420 120]
   \<and> two_decimal_places ''12.50''"
proof -
  have h: "eq_null (quantity plain_item)" "eq_null (category plain_item)"
    "eq_null (supplier plain_item)"
    "parseFloat no_builtins (price plain_item) = Fin (25 / 2) \<and> \<bar>25 / 2 :: rat\<bar> < 10 ^ 21"
    by (simp_all add: plain_item_def eq_null_def parseFloat_def)
  have n: "name plain_item = JStr ''Widget''"
    by (simp add: plain_item_def)
  have "\<lfloor>2501 / 2 :: rat\<rfloor> = 1250"
    by (simp add: floor_eq_iff)
  then have f: "nat \<lfloor>2501 / 2 :: rat\<rfloor> = 1250"
    by simp
  have d: "digits 1250 = ''1250''"
    by (simp add: digits.simps digit_char_def)
  have p: "price_cell no_builtins plain_item = JStr (currency @ ''12.50'')"
    by (simp add: price_cell_def price_text_def plain_item_def parseFloat_def toFixed2_def
        Let_def f d)
  note c = pdf_row_cells [of no_builtins plain_item 120, unfolded n]
  from c h(1) have q: "quantity_cell no_builtins plain_item = JStr ''0''" by blast
  from c h(2) have g: "category_cell plain_item = JStr ''-''" by blast
  from c h(3) have s: "supplier_cell plain_item = JStr ''-''" by blast
  from c have r: "row_ops no_builtins plain_item 120 =
     [TextAt (JStr ''Widget'') 50 120, TextAt (quantity_cell no_builtins plain_item) 200 120,
      TextAt (price_cell no_builtins plain_item) 260 120, TextAt (category_cell plain_item) 330 120,
      TextAt (supplier_cell plain_item) 420 120]" by blast
  from c h(4) obtain t where t: "price_cell no_builtins plain_item = JStr (currency @ t)"
    "two_decimal_places t" by blast
  from t(1) p have "t = ''12.50''" by simp
  with t(2) r p q g s show ?thesis by simp
qed

text \<open>
  C5 as stated fails on a price of \<open>10^21\<close>: \<^verbatim>\<open>toFixed\<close> prints such a number as
  \<^verbatim>\<open>Number::toString\<close> does, in exponent form, and the cell reads \<^verbatim>\<open>1e+21\<close> after the
  prefix, which has no decimal places.
\<close>

theorem price_cell_counterexample:
  "price_cell no_builtins costly_item = JStr (currency @ ''1e+21'')
   \<and> \<not> two_decimal_places ''1e+21''"
proof
  show "price_cell no_builtins costly_item = JStr (currency @ ''1e+21'')"
    by (simp add: price_cell_def price_text_def costly_item_def parseFloat_def toFixed2_def
        Number_toString_def Let_def digits.simps strip_zeros.simps digit_char_def)
  show "\<not> two_decimal_places ''1e+21''"
    by (simp add: two_decimal_places_def is_digit_def)
qed


end
